theory Spec2Isabelle
  imports Complex_Main
begin

section \<open>Values of the data-processing session\<close>

text \<open>
  The class \<open>DataProcess\<close> of \<open>data_process.py\<close> is embedded method by method. Every
  \<open>raise\<close> of the source, and every exception Python itself raises on the paths the
  source takes (a missing attribute, an unbound local variable, an index out of range,
  shapes that do not broadcast), is a value of \<open>error\<close>.
\<close>

datatype error = ValueError | AttributeError | UnboundLocalError | IndexError | TypeError

text \<open>
  A two-dimensional numpy array, as a value: its shape and its pixels. Pixels are reals:
  the rounding of floating point is not modelled, and neither are \<open>inf\<close> and \<open>nan\<close>.
  Where numpy divides by zero (giving \<open>inf\<close> or \<open>nan\<close> and a warning, no exception), the
  quotient of the model is HOL's \<open>x / 0 = 0\<close>; statements about quotients therefore say
  that the divisor is not zero.
\<close>

record ndarray =
  shape0 :: nat
  shape1 :: nat
  px :: "nat \<Rightarrow> nat \<Rightarrow> real"

text \<open>
  Array objects live in a store. A buffer is a grid of pixels at an address; an array
  object is a window onto a buffer (its \<open>view\<close>), so that a basic slice shares the
  pixels of the array it was cut from and an in-place operation is seen through every
  window onto the same pixels.
\<close>

type_synonym addr = nat

record view =
  buf :: addr
  row0 :: nat
  col0 :: nat
  nrows :: nat
  ncols :: nat

record heap =
  cells :: "addr \<Rightarrow> nat \<Rightarrow> nat \<Rightarrow> real"
  fresh :: addr

text \<open>The array seen through a window: the pixels of the window, and 0 outside its shape.\<close>

definition deref :: "heap \<Rightarrow> view \<Rightarrow> ndarray" where
  "deref h v = \<lparr>shape0 = nrows v, shape1 = ncols v,
                px = (\<lambda>i j. if i < nrows v \<and> j < ncols v
                            then cells h (buf v) (row0 v + i) (col0 v + j) else 0)\<rparr>"

text \<open>A new array: the next address, and a window onto all of it.\<close>

definition alloc :: "heap \<Rightarrow> ndarray \<Rightarrow> view \<times> heap" where
  "alloc h a =
     (\<lparr>buf = fresh h, row0 = 0, col0 = 0, nrows = shape0 a, ncols = shape1 a\<rparr>,
      h\<lparr>cells := (cells h)(fresh h := px a), fresh := Suc (fresh h)\<rparr>)"

text \<open>
  Broadcasting of two shapes, axis by axis: equal lengths, or one of them 1. A binary
  operation of numpy raises ValueError when the shapes do not broadcast.
\<close>

definition bdim :: "nat \<Rightarrow> nat \<Rightarrow> nat option" where
  "bdim m n = (if m = n then Some m else if m = 1 then Some n
               else if n = 1 then Some m else None)"

definition bidx :: "nat \<Rightarrow> nat \<Rightarrow> nat" where
  "bidx m i = (if m = 1 then 0 else i)"

definition broadcast2 :: "(real \<Rightarrow> real \<Rightarrow> real) \<Rightarrow> ndarray \<Rightarrow> ndarray \<Rightarrow> error + ndarray" where
  "broadcast2 f a b =
     (case bdim (shape0 a) (shape0 b) of
        None \<Rightarrow> Inl ValueError
      | Some r \<Rightarrow>
          (case bdim (shape1 a) (shape1 b) of
             None \<Rightarrow> Inl ValueError
           | Some c \<Rightarrow>
               Inr \<lparr>shape0 = r, shape1 = c,
                    px = (\<lambda>i j. f (px a (bidx (shape0 a) i) (bidx (shape1 a) j))
                                  (px b (bidx (shape0 b) i) (bidx (shape1 b) j)))\<rparr>))"

definition np_sum :: "ndarray \<Rightarrow> real" where
  "np_sum a = (\<Sum>i<shape0 a. \<Sum>j<shape1 a. px a i j)"

definition np_map :: "(real \<Rightarrow> real) \<Rightarrow> ndarray \<Rightarrow> ndarray" where
  "np_map f a = a\<lparr>px := (\<lambda>i j. f (px a i j))\<rparr>"

definition ones_like :: "ndarray \<Rightarrow> ndarray" where
  "ones_like a = a\<lparr>px := (\<lambda>i j. 1)\<rparr>"

text \<open>Python's \<open>int(x)\<close> on a float: the integer towards zero, of any size.\<close>

definition trunc0 :: "real \<Rightarrow> int" where
  "trunc0 x = (if 0 \<le> x then \<lfloor>x\<rfloor> else \<lceil>x\<rceil>)"

text \<open>
  \<open>np.int0\<close> is numpy's \<open>intp\<close>, a signed integer of 64 bits: \<open>np.int0\<close> of a pair
  of floats casts each coordinate towards zero. The cast is defined for a float whose
  integer part is in the range of \<open>intp\<close>; outside it C leaves the result open, and
  numpy on x86-64 stores the least \<open>intp\<close> (with a warning, no exception), which is
  what \<open>to_intp\<close> gives there. Statements about \<open>np_int0\<close> say that the coordinates
  are in range.
\<close>

definition intp_range :: "real \<Rightarrow> bool" where
  "intp_range x \<longleftrightarrow> - (2 ^ 63) \<le> trunc0 x \<and> trunc0 x < 2 ^ 63"

definition to_intp :: "real \<Rightarrow> int" where
  "to_intp x = (if intp_range x then trunc0 x else - (2 ^ 63))"

definition np_int0 :: "real \<times> real \<Rightarrow> int \<times> int" where
  "np_int0 p = (to_intp (fst p), to_intp (snd p))"

text \<open>
  A position handed to a cutout: a pair \<open>[x, y]\<close>, or the array of shape (1, 2) that
  \<open>all_world2pix\<close> returns for one pair of sky coordinates.
\<close>

datatype coords = Flat real real | Nested real real

definition pixel_coords :: "int \<times> int \<Rightarrow> coords" where
  "pixel_coords p = Flat (real_of_int (fst p)) (real_of_int (snd p))"

datatype exposure = Scalar real | Map view

type_synonym header = "string \<Rightarrow> real option"

typedecl aperture

section \<open>The collaborators\<close>

text \<open>
  The measurement and cutout tools (\<open>decomprofile.tools\<close>), the WCS transform and the
  line typed at an interactive prompt are outside the class: they are parameters of the
  embedding. A collaborator is a function of its arguments; the array it returns is a new
  array. Plotting and the options passed through \<open>**kwargs\<close> have no part in the state.
  The kernel of \<open>cut_center_auto\<close> is \<open>None\<close> where the source leaves it to the default.
\<close>

record collaborators =
  read_pixel_scale :: "header \<Rightarrow> real"
  measure_bkg :: "ndarray \<Rightarrow> ndarray"
  all_world2pix :: "header option \<Rightarrow> real \<times> real \<Rightarrow> real \<times> real"
  cutout :: "ndarray \<Rightarrow> coords \<Rightarrow> int \<Rightarrow> ndarray"
  cut_center_auto :: "ndarray \<Rightarrow> coords \<Rightarrow> string option \<Rightarrow> int \<Rightarrow> ndarray \<times> (int \<times> int)"
  fit_data_oneD_gaussian :: "real list \<Rightarrow> real \<times> real"
  esti_bgkstd :: "ndarray \<Rightarrow> real"
  detect_obj :: "ndarray \<Rightarrow> aperture list"
  mask_obj :: "ndarray \<Rightarrow> aperture list \<Rightarrow> ndarray list"
  search_local_max :: "ndarray \<Rightarrow> coords list"
  measure_FWHM :: "ndarray \<Rightarrow> int \<Rightarrow> real list"
  input_line :: string

text \<open>
  Modelled from the spec: the cutout tools are not part of \<open>data_process.py\<close>, and the
  interface of the cutout is "(image, center, radius) -> square array of side
  (2 * radius + 1)"; the stamp of the auto-centring cutout is a cutout at the refined
  centre. \<open>square_cutouts\<close> says that the two collaborators keep this contract.
\<close>

definition square_cutouts :: "collaborators \<Rightarrow> bool" where
  "square_cutouts env \<longleftrightarrow>
     (\<forall>img c r. shape0 (cutout env img c r) = nat (2 * r + 1)
                \<and> shape1 (cutout env img c r) = nat (2 * r + 1))
     \<and> (\<forall>img c k r. shape0 (fst (cut_center_auto env img c k r)) = nat (2 * r + 1)
                    \<and> shape1 (fst (cut_center_auto env img c k r)) = nat (2 * r + 1))"

section \<open>The session object\<close>

text \<open>
  The attributes of a \<open>DataProcess\<close> object. \<open>exptime\<close>, \<open>header\<close>, \<open>fov_image\<close> and
  \<open>fov_noise_map\<close> are always set and may hold Python's \<open>None\<close>. The other optional
  fields are attributes that exist only once a method has set them: \<open>None\<close> is the
  attribute that \<open>hasattr\<close> does not find.
\<close>

record session =
  target_pos :: "int \<times> int"
  exptime :: "exposure option"
  if_plot :: bool
  header :: "header option"
  deltaPix :: "real option"
  fov_image :: "view option"
  fov_noise_map :: "view option"
  psf_id_for_fitting :: "int option"
  zp :: real
  bkg_std :: "real option"
  noise_map :: "view option"
  apertures :: "aperture list option"
  target_stamp :: "view option"
  target_mask :: "view option"
  PSF_pos_list :: "coords list option"
  PSF_list :: "view list option"

subsection \<open>Construction\<close>

record init_args =
  arg_fov_image :: "view option"
  arg_target_pos :: "(real \<times> real) option"
  arg_pos_type :: string
  arg_header :: "header option"
  arg_exptime :: "exposure option"
  arg_fov_noise_map :: "view option"
  arg_rm_bkglight :: bool
  arg_if_plot :: bool
  arg_zp :: "real option"

text \<open>Lines 56 to 66: the target position, as integers.\<close>

definition resolve_target_pos :: "collaborators \<Rightarrow> init_args \<Rightarrow> error + int \<times> int" where
  "resolve_target_pos env a =
     (case arg_target_pos a of
        None \<Rightarrow> Inl ValueError
      | Some p \<Rightarrow>
          if arg_pos_type a = ''pixel'' then Inr (np_int0 p)
          else if arg_pos_type a = ''wcs'' then Inr (np_int0 (all_world2pix env (arg_header a) p))
          else Inl ValueError)"

text \<open>Lines 75 to 78: the image, less its background light when that is asked for.\<close>

definition remove_bkglight :: "collaborators \<Rightarrow> init_args \<Rightarrow> heap \<Rightarrow> error + view option \<times> heap" where
  "remove_bkglight env a h =
     (case arg_fov_image a of
        None \<Rightarrow> Inr (None, h)
      | Some v \<Rightarrow>
          if arg_rm_bkglight a then
            (case broadcast2 (-) (deref h v) (measure_bkg env (deref h v)) of
               Inl e \<Rightarrow> Inl e
             | Inr d \<Rightarrow> (case alloc h d of (w, h') \<Rightarrow> Inr (Some w, h')))
          else Inr (Some v, h))"

definition DataProcess_init :: "collaborators \<Rightarrow> init_args \<Rightarrow> heap \<Rightarrow> error + session \<times> heap" where
  "DataProcess_init env a h =
     (case resolve_target_pos env a of
        Inl e \<Rightarrow> Inl e
      | Inr tp \<Rightarrow>
          (case remove_bkglight env a h of
             Inl e \<Rightarrow> Inl e
           | Inr (img, h') \<Rightarrow>
               Inr (\<lparr>target_pos = tp,
                     exptime = arg_exptime a,
                     if_plot = arg_if_plot a,
                     header = arg_header a,
                     deltaPix = map_option (read_pixel_scale env) (arg_header a),
                     fov_image = img,
                     fov_noise_map = arg_fov_noise_map a,
                     psf_id_for_fitting = Some 0,
                     zp = (case arg_zp a of None \<Rightarrow> 27 | Some z \<Rightarrow> z),
                     bkg_std = None,
                     noise_map = None,
                     apertures = None,
                     target_stamp = None,
                     target_mask = None,
                     PSF_pos_list = None,
                     PSF_list = None\<rparr>, h')))"

subsection \<open>generate_target_materials\<close>

record materials_args =
  arg_cut_kernel :: "string option"
  arg_radius :: "int option"
  arg_radius_list :: "int list option"
  arg_bkg_std :: "real option"
  arg_create_mask :: bool

text \<open>
  \<open>cutout(image = self.fov_image, ...)\<close>. The image may be \<open>None\<close> (the default of the
  constructor); cutting from \<open>None\<close> fails inside the collaborator, here with TypeError.
\<close>

definition cutout_fov :: "collaborators \<Rightarrow> session \<Rightarrow> heap \<Rightarrow> coords \<Rightarrow> int \<Rightarrow> error + ndarray" where
  "cutout_fov env s h c r =
     (case fov_image s of
        None \<Rightarrow> Inl TypeError
      | Some v \<Rightarrow> Inr (cutout env (deref h v) c r))"

text \<open>
  Line 113: the first row, the last row, the first column and the last column. Index 0
  of an axis of length 0 is out of bounds.
\<close>

definition edge_data :: "ndarray \<Rightarrow> error + real list" where
  "edge_data c =
     (if shape0 c = 0 \<or> shape1 c = 0 then Inl IndexError
      else Inr (map (px c 0) [0..<shape1 c] @ map (px c (shape0 c - 1)) [0..<shape1 c]
                @ map (\<lambda>i. px c i 0) [0..<shape0 c]
                @ map (\<lambda>i. px c i (shape1 c - 1)) [0..<shape0 c]))"

text \<open>Lines 114 to 116: the fraction of edge pixels above mean + 2 sigma of the fit.\<close>

definition percent :: "collaborators \<Rightarrow> real list \<Rightarrow> real" where
  "percent env e =
     (case fit_data_oneD_gaussian env e of
        (gauss_mean, gauss_1sig) \<Rightarrow>
          real (length (filter (\<lambda>x. x > gauss_mean + 2 * gauss_1sig) e)) / real (length e))"

text \<open>Lines 112 to 116, for one radius: the cutout, its edge, the fraction.\<close>

definition edge_fraction :: "collaborators \<Rightarrow> session \<Rightarrow> heap \<Rightarrow> int \<Rightarrow> error + real" where
  "edge_fraction env s h r =
     (case cutout_fov env s h (pixel_coords (target_pos s)) r of
        Inl e \<Rightarrow> Inl e
      | Inr cut_data \<Rightarrow>
          (case edge_data cut_data of
             Inl e \<Rightarrow> Inl e
           | Inr e \<Rightarrow> Inr (percent env e)))"

text \<open>
  Lines 110 to 118, the loop over the radius list. The second argument of the loop is
  the variable \<open>rad\<close>: unbound (\<open>None\<close>) until the first iteration binds it.
\<close>

fun radius_loop :: "collaborators \<Rightarrow> session \<Rightarrow> heap \<Rightarrow> int option \<Rightarrow> int list \<Rightarrow> error + int option" where
  "radius_loop env s h rad [] = Inr rad"
| "radius_loop env s h rad (r # rs) =
     (case edge_fraction env s h r of
        Inl e \<Rightarrow> Inl e
      | Inr p \<Rightarrow>
          if p < 0.03 then Inr (Some r)
          else radius_loop env s h (Some r) rs)"

text \<open>The test of line 117 for one radius, as a predicate: the fraction exists and is below 3%.\<close>

definition below_limit :: "collaborators \<Rightarrow> session \<Rightarrow> heap \<Rightarrow> int \<Rightarrow> bool" where
  "below_limit env s h r = (case edge_fraction env s h r of Inl e \<Rightarrow> False | Inr p \<Rightarrow> p < 0.03)"

definition default_radius_list :: "int list" where
  "default_radius_list = [30, 35, 40, 45, 50, 60, 70]"

text \<open>Lines 107 to 119. \<open>radius = rad\<close> reads a variable that an empty list never bound.\<close>

definition choose_radius :: "collaborators \<Rightarrow> materials_args \<Rightarrow> session \<Rightarrow> heap \<Rightarrow> error + int" where
  "choose_radius env a s h =
     (case arg_radius a of
        Some r \<Rightarrow> Inr r
      | None \<Rightarrow>
          (case radius_loop env s h None
                  (case arg_radius_list a of None \<Rightarrow> default_radius_list | Some l \<Rightarrow> l) of
             Inl e \<Rightarrow> Inl e
           | Inr None \<Rightarrow> Inl UnboundLocalError
           | Inr (Some r) \<Rightarrow> Inr r))"

text \<open>Lines 123 to 128: the stamp of the target, and the session with the centre it was cut at.\<close>

definition cut_target :: "collaborators \<Rightarrow> string option \<Rightarrow> int \<Rightarrow> session \<Rightarrow> heap \<Rightarrow> error + ndarray \<times> session" where
  "cut_target env knl r s h =
     (case knl of
        Some k \<Rightarrow>
          (case fov_image s of
             None \<Rightarrow> Inl TypeError
           | Some v \<Rightarrow>
               (case cut_center_auto env (deref h v) (pixel_coords (target_pos s)) (Some k) r of
                  (stamp, center) \<Rightarrow> Inr (stamp, s\<lparr>target_pos := center\<rparr>)))
      | None \<Rightarrow>
          (case cutout_fov env s h (pixel_coords (target_pos s)) r of
             Inl e \<Rightarrow> Inl e
           | Inr stamp \<Rightarrow> Inr (stamp, s)))"

text \<open>Lines 138 to 142: the exposure time, from the session or else from the header.\<close>

definition resolve_exptime :: "session \<Rightarrow> error + exposure" where
  "resolve_exptime s =
     (case exptime s of
        Some t \<Rightarrow> Inr t
      | None \<Rightarrow>
          (case header s of
             None \<Rightarrow> Inl AttributeError
           | Some hdr \<Rightarrow>
               (case hdr ''EXPTIME'' of
                  Some t \<Rightarrow> Inr (Scalar t)
                | None \<Rightarrow> Inl ValueError)))"

text \<open>
  Lines 130 to 146. With no noise map of the field: \<open>self.bkg_std\<close> is assigned only when
  the argument \<open>bkg_std\<close> is \<open>None\<close> (line 133), and \<open>exptime_stamp\<close> only when the
  exposure time is an array (line 143); line 145 reads both. In line 145 the quotient
  is evaluated before \<open>self.bkg_std\<close> is read.
\<close>

definition make_noise_map ::
  "collaborators \<Rightarrow> real option \<Rightarrow> int \<Rightarrow> ndarray \<Rightarrow> session \<Rightarrow> heap \<Rightarrow> (error + unit) \<times> session \<times> heap" where
  "make_noise_map env bkg r stamp s h =
     (case fov_noise_map s of
        Some nm \<Rightarrow>
          (case alloc h (cutout env (deref h nm) (pixel_coords (target_pos s)) r) of
             (w, h') \<Rightarrow> (Inr (), s\<lparr>noise_map := Some w\<rparr>, h'))
      | None \<Rightarrow>
          (case (case bkg of
                   Some b \<Rightarrow> Inr s
                 | None \<Rightarrow>
                     (case cutout_fov env s h (pixel_coords (target_pos s)) (r * 2) of
                        Inl e \<Rightarrow> Inl e
                      | Inr larger \<Rightarrow> Inr (s\<lparr>bkg_std := Some (esti_bgkstd env larger)\<rparr>))) of
             Inl e \<Rightarrow> (Inl e, s, h)
           | Inr s1 \<Rightarrow>
               (case resolve_exptime s1 of
                  Inl e \<Rightarrow> (Inl e, s1, h)
                | Inr (Scalar t) \<Rightarrow> (Inl UnboundLocalError, s1, h)
                | Inr (Map m) \<Rightarrow>
                    (case broadcast2 (/) stamp
                            (cutout env (deref h m) (pixel_coords (target_pos s1)) r) of
                       Inl e \<Rightarrow> (Inl e, s1, h)
                     | Inr q \<Rightarrow>
                         (case bkg_std s1 of
                            None \<Rightarrow> (Inl AttributeError, s1, h)
                          | Some b \<Rightarrow>
                              (case alloc h (np_map (\<lambda>x. sqrt (\<bar>x\<bar> + b ^ 2)) q) of
                                 (w, h') \<Rightarrow> (Inr (), s1\<lparr>noise_map := Some w\<rparr>, h')))))))"

text \<open>
  Lines 152 to 156: the indices typed at the prompt, one for each digit of the line.
  A \<open>char\<close> is a byte: the digits are the ASCII ones.
\<close>

definition digit_val :: "char \<Rightarrow> nat option" where
  "digit_val c = (if 48 \<le> (of_char c :: nat) \<and> (of_char c :: nat) \<le> 57
                  then Some (of_char c - 48) else None)"

definition select_digits :: "string \<Rightarrow> nat list" where
  "select_digits line = List.map_filter digit_val line"

text \<open>\<open>[xs[i] for i in select_idx]\<close>, with IndexError out of range.\<close>

definition pick :: "'a list \<Rightarrow> nat list \<Rightarrow> error + 'a list" where
  "pick xs idx = (if list_all (\<lambda>i. i < length xs) idx then Inr (map (\<lambda>i. xs ! i) idx)
                  else Inl IndexError)"

text \<open>\<open>target_mask *= mask\<close>: the mask is broadcast to the shape of the target mask.\<close>

definition imul :: "ndarray \<Rightarrow> ndarray \<Rightarrow> error + ndarray" where
  "imul t m =
     (if (shape0 m = shape0 t \<or> shape0 m = 1) \<and> (shape1 m = shape1 t \<or> shape1 m = 1)
      then Inr (t\<lparr>px := (\<lambda>i j. px t i j * px m (bidx (shape0 m) i) (bidx (shape1 m) j))\<rparr>)
      else Inl ValueError)"

fun apply_masks :: "ndarray \<Rightarrow> ndarray list \<Rightarrow> error + ndarray" where
  "apply_masks t [] = Inr t"
| "apply_masks t (m # ms) =
     (case imul t m of Inl e \<Rightarrow> Inl e | Inr t' \<Rightarrow> apply_masks t' ms)"

text \<open>
  Lines 148 to 161: the apertures that stay, and the mask. The mask is a new array of
  ones that no other object refers to, so its in-place products are products of values.
\<close>

definition make_mask :: "collaborators \<Rightarrow> bool \<Rightarrow> ndarray \<Rightarrow> error + aperture list \<times> ndarray" where
  "make_mask env create stamp =
     (if create then
        (case pick (detect_obj env stamp) (select_digits (input_line env)) of
           Inl e \<Rightarrow> Inl e
         | Inr chosen \<Rightarrow>
             (case apply_masks (ones_like stamp) (mask_obj env stamp chosen) of
                Inl e \<Rightarrow> Inl e
              | Inr tmask \<Rightarrow>
                  Inr (map (\<lambda>i. detect_obj env stamp ! i)
                         (filter (\<lambda>i. i \<notin> set (select_digits (input_line env)))
                            [0..<length (detect_obj env stamp)]),
                       tmask)))
      else Inr (detect_obj env stamp, ones_like stamp))"

text \<open>
  The method. An exception leaves the session as the statements before it made it, so
  the result is the outcome together with the session and the store.
\<close>

definition generate_target_materials ::
  "collaborators \<Rightarrow> materials_args \<Rightarrow> session \<Rightarrow> heap \<Rightarrow> (error + unit) \<times> session \<times> heap" where
  "generate_target_materials env a s h =
     (case choose_radius env a s h of
        Inl e \<Rightarrow> (Inl e, s, h)
      | Inr r \<Rightarrow>
          (case cut_target env (arg_cut_kernel a) r s h of
             Inl e \<Rightarrow> (Inl e, s, h)
           | Inr (stamp, s1) \<Rightarrow>
               (case alloc h stamp of
                  (ts, h1) \<Rightarrow>
                    (case make_noise_map env (arg_bkg_std a) r stamp s1 h1 of
                       (Inl e, s2, h2) \<Rightarrow> (Inl e, s2, h2)
                     | (Inr u, s2, h2) \<Rightarrow>
                         (case make_mask env (arg_create_mask a) stamp of
                            Inl e \<Rightarrow> (Inl e, s2, h2)
                          | Inr (aps, tmask) \<Rightarrow>
                              (case alloc h2 tmask of
                                 (tm, h3) \<Rightarrow>
                                   (Inr (),
                                    s2\<lparr>apertures := Some aps, target_stamp := Some ts,
                                       target_mask := Some tm\<rparr>,
                                    h3)))))))"

subsection \<open>find_PSF\<close>

text \<open>
  \<open>np.mean\<close>, \<open>np.std\<close> (of the population), \<open>np.median\<close> and the minimum of a
  one-dimensional array. Of an empty array numpy's mean, deviation and median are \<open>nan\<close>;
  the tests below that read them ask first whether the array is empty.
\<close>

definition np_mean :: "real list \<Rightarrow> real" where
  "np_mean xs = sum_list xs / real (length xs)"

definition np_std :: "real list \<Rightarrow> real" where
  "np_std xs = sqrt (np_mean (map (\<lambda>x. (x - np_mean xs) ^ 2) xs))"

definition np_median :: "real list \<Rightarrow> real" where
  "np_median xs =
     (if even (length xs)
      then (sort xs ! (length xs div 2 - 1) + sort xs ! (length xs div 2)) / 2
      else sort xs ! (length xs div 2))"

fun np_min :: "real list \<Rightarrow> real" where
  "np_min [] = 0"
| "np_min [x] = x"
| "np_min (x # y # ys) = min x (np_min (y # ys))"

text \<open>
  Line 199, \<open>np.std(_fwhms)/np.mean(_fwhms) < 0.1\<close>. With no measurement, or with mean 0,
  the quotient of numpy is \<open>nan\<close> or \<open>inf\<close> and the comparison is false.
\<close>

definition steady :: "real list \<Rightarrow> bool" where
  "steady fwhms \<longleftrightarrow> fwhms \<noteq> [] \<and> np_mean fwhms \<noteq> 0 \<and> np_std fwhms / np_mean fwhms < 0.1"

text \<open>
  Lines 196 to 198, for one local maximum: its position, the FWHM measurements of its
  stamp and the flux of its stamp.
\<close>

definition measure_candidate ::
  "collaborators \<Rightarrow> ndarray \<Rightarrow> int \<Rightarrow> coords \<Rightarrow> coords \<times> real list \<times> real" where
  "measure_candidate env img r loc =
     (case cut_center_auto env img loc None r of
        (cut_image, center) \<Rightarrow>
          (loc, measure_FWHM env cut_image (trunc0 (real_of_int r / 5)), np_sum cut_image))"

text \<open>
  Lines 194 to 205. The candidates that pass line 199 are the \<open>survivors\<close>. The three
  lists \<open>init_PSF_locs\<close>, \<open>FWHMs\<close> and \<open>fluxs\<close> grow together, one entry each for a
  survivor: they are the three components of one list.
\<close>

definition survivors :: "collaborators \<Rightarrow> ndarray \<Rightarrow> int \<Rightarrow> (coords \<times> real list \<times> real) list" where
  "survivors env img r =
     filter (\<lambda>c. steady (fst (snd c)))
       (map (measure_candidate env img r) (search_local_max env img))"

definition init_PSFs :: "collaborators \<Rightarrow> ndarray \<Rightarrow> int \<Rightarrow> (coords \<times> real \<times> real) list" where
  "init_PSFs env img r =
     map (\<lambda>c. (fst c, np_mean (fst (snd c)), snd (snd c))) (survivors env img r)"

text \<open>Lines 206 to 210: the mask of the candidates that stay.\<close>

definition select_bool :: "real option \<Rightarrow> real list \<Rightarrow> real list \<Rightarrow> bool list" where
  "select_bool target_flux FWHMs fluxs =
     map (\<lambda>(w, f). w < np_median FWHMs * 1.5 \<and>
                   (case target_flux of
                      None \<Rightarrow> True
                    | Some t \<Rightarrow> f < t * 10 \<and> f > t / 2))
       (zip FWHMs fluxs)"

text \<open>Indexing by a boolean array.\<close>

definition np_mask :: "'a list \<Rightarrow> bool list \<Rightarrow> 'a list" where
  "np_mask xs bs = map fst (filter snd (zip xs bs))"

text \<open>Lines 223 to 228: \<open>split(" ")\<close>, and the value of each piece that is all digits.\<close>

fun split_space :: "string \<Rightarrow> string list" where
  "split_space [] = [[]]"
| "split_space (c # cs) =
     (if c = CHR '' '' then [] # split_space cs
      else (case split_space cs of
              [] \<Rightarrow> [[c]]
            | w # ws \<Rightarrow> (c # w) # ws))"

definition isnumeric :: "string \<Rightarrow> bool" where
  "isnumeric w \<longleftrightarrow> w \<noteq> [] \<and> list_all (\<lambda>c. digit_val c \<noteq> None) w"

definition int_of_digits :: "string \<Rightarrow> nat" where
  "int_of_digits w = foldl (\<lambda>n c. 10 * n + (case digit_val c of None \<Rightarrow> 0 | Some d \<Rightarrow> d)) 0 w"

definition select_numbers :: "string \<Rightarrow> nat list" where
  "select_numbers line = map int_of_digits (filter isnumeric (split_space line))"

text \<open>
  Lines 192 to 232, the search for candidates. \<open>FWHMs.min()\<close> of an empty array raises
  ValueError. Searching an image that is \<open>None\<close> fails inside the collaborator, here
  with TypeError.
\<close>

definition target_flux :: "session \<Rightarrow> heap \<Rightarrow> real option" where
  "target_flux s h = map_option (\<lambda>ts. np_sum (deref h ts)) (target_stamp s)"

text \<open>
  Lines 211 to 213: the same mask on each of the three lists, that is on the list of
  their triples.
\<close>

definition kept_PSFs :: "collaborators \<Rightarrow> int \<Rightarrow> session \<Rightarrow> heap \<Rightarrow> ndarray \<Rightarrow> (coords \<times> real \<times> real) list" where
  "kept_PSFs env r s h img =
     np_mask (init_PSFs env img r)
       (select_bool (target_flux s h) (map (\<lambda>c. fst (snd c)) (init_PSFs env img r))
          (map (\<lambda>c. snd (snd c)) (init_PSFs env img r)))"

definition search_PSF :: "collaborators \<Rightarrow> int \<Rightarrow> bool \<Rightarrow> session \<Rightarrow> heap \<Rightarrow> error + coords list" where
  "search_PSF env r user_option s h =
     (case fov_image s of
        None \<Rightarrow> Inl TypeError
      | Some v \<Rightarrow>
          (let PSF_locs = map fst (kept_PSFs env r s h (deref h v));
               FWHMs = map (\<lambda>c. fst (snd c)) (kept_PSFs env r s h (deref h v))
           in if user_option then pick PSF_locs (select_numbers (input_line env))
              else if FWHMs = [] then Inl ValueError
              else Inr [PSF_locs ! length (takeWhile (\<lambda>w. w \<noteq> np_min FWHMs) FWHMs)]))"

text \<open>
  Lines 234 to 238, positions given by the caller. In line 238 the range is that of
  \<open>self.PSF_pos_list\<close>, the list the session held before the call, and each entry is
  the array of shape (1, 2) that the transform returns. A position type that is neither
  \<open>pixel\<close> nor \<open>wcs\<close> assigns nothing.
\<close>

definition given_PSF_pos ::
  "collaborators \<Rightarrow> (real \<times> real) list \<Rightarrow> string \<Rightarrow> session \<Rightarrow> error + session" where
  "given_PSF_pos env ps pos_type s =
     (if pos_type = ''pixel'' then Inr (s\<lparr>PSF_pos_list := Some (map (\<lambda>p. Flat (fst p) (snd p)) ps)\<rparr>)
      else if pos_type = ''wcs'' then
        (case PSF_pos_list s of
           None \<Rightarrow> Inl AttributeError
         | Some old \<Rightarrow>
             if length old \<le> length ps
             then Inr (s\<lparr>PSF_pos_list :=
                          Some (map (\<lambda>i. case all_world2pix env (header s) (ps ! i) of
                                            (x, y) \<Rightarrow> Nested x y)
                                  [0..<length old])\<rparr>)
             else Inl IndexError)
      else Inr s)"

fun alloc_all :: "heap \<Rightarrow> ndarray list \<Rightarrow> view list \<times> heap" where
  "alloc_all h [] = ([], h)"
| "alloc_all h (a # as) =
     (case alloc h a of
        (v, h1) \<Rightarrow> (case alloc_all h1 as of (vs, h2) \<Rightarrow> (v # vs, h2)))"

text \<open>Lines 239 and 240: a stamp centred by the Gaussian kernel for each stored position.\<close>

definition cut_PSFs :: "collaborators \<Rightarrow> int \<Rightarrow> session \<Rightarrow> heap \<Rightarrow> (error + unit) \<times> session \<times> heap" where
  "cut_PSFs env r s h =
     (case PSF_pos_list s of
        None \<Rightarrow> (Inl AttributeError, s, h)
      | Some ps \<Rightarrow>
          (case fov_image s of
             None \<Rightarrow> if ps = [] then (Inr (), s\<lparr>PSF_list := Some []\<rparr>, h)
                     else (Inl TypeError, s, h)
           | Some v \<Rightarrow>
               (case alloc_all h
                       (map (\<lambda>p. fst (cut_center_auto env (deref h v) p (Some ''center_gaussian'') r)) ps) of
                  (vs, h') \<Rightarrow> (Inr (), s\<lparr>PSF_list := Some vs\<rparr>, h'))))"

definition find_PSF ::
  "collaborators \<Rightarrow> int \<Rightarrow> (real \<times> real) list option \<Rightarrow> string \<Rightarrow> bool \<Rightarrow> session \<Rightarrow> heap
     \<Rightarrow> (error + unit) \<times> session \<times> heap" where
  "find_PSF env r given pos_type user_option s h =
     (case given of
        None \<Rightarrow>
          (case search_PSF env r user_option s h of
             Inl e \<Rightarrow> (Inl e, s, h)
           | Inr ps \<Rightarrow> cut_PSFs env r (s\<lparr>PSF_pos_list := Some ps\<rparr>) h)
      | Some ps \<Rightarrow>
          (case given_PSF_pos env ps pos_type s of
             Inl e \<Rightarrow> (Inl e, s, h)
           | Inr s1 \<Rightarrow> cut_PSFs env r s1 h))"

subsection \<open>checkout\<close>

definition checklist :: "string list" where
  "checklist = [''deltaPix'', ''target_stamp'', ''noise_map'', ''target_mask'', ''PSF_list'',
                ''psf_id_for_fitting'']"

definition hasattr :: "session \<Rightarrow> string \<Rightarrow> bool" where
  "hasattr s name =
     (if name = ''deltaPix'' then deltaPix s \<noteq> None
      else if name = ''target_stamp'' then target_stamp s \<noteq> None
      else if name = ''noise_map'' then noise_map s \<noteq> None
      else if name = ''target_mask'' then target_mask s \<noteq> None
      else if name = ''PSF_list'' then PSF_list s \<noteq> None
      else if name = ''psf_id_for_fitting'' then psf_id_for_fitting s \<noteq> None
      else False)"

text \<open>An index into a Python list of length \<open>n\<close>: a negative index counts from the end.\<close>

definition py_index :: "nat \<Rightarrow> int \<Rightarrow> nat option" where
  "py_index n i =
     (if 0 \<le> i \<and> i < int n then Some (nat i)
      else if - int n \<le> i \<and> i < 0 then Some (nat (int n + i))
      else None)"

text \<open>\<open>self.PSF_list[self.psf_id_for_fitting]\<close>: the index, the list and the array.\<close>

definition selected_PSF :: "session \<Rightarrow> error + nat \<times> view list \<times> view" where
  "selected_PSF s =
     (case PSF_list s of
        None \<Rightarrow> Inl AttributeError
      | Some l \<Rightarrow>
          (case psf_id_for_fitting s of
             None \<Rightarrow> Inl AttributeError
           | Some i \<Rightarrow>
               (case py_index (length l) i of
                  None \<Rightarrow> Inl IndexError
                | Some k \<Rightarrow> Inr (k, l, l ! k))))"

text \<open>
  Lines 260 to 264. \<open>a[cut:-cut, :]\<close> and \<open>a[:, -cut:cut]\<close> are basic slices: windows
  onto the pixels of \<open>a\<close>, from \<open>cut\<close> to \<open>cut\<close> before the end of the axis.
\<close>

definition trim :: "view \<Rightarrow> view" where
  "trim v =
     (let cut = trunc0 ((real (nrows v) - real (ncols v)) / 2)
      in if cut > 0 then
           v\<lparr>row0 := row0 v + min (nat cut) (nrows v), nrows := nrows v - nat cut - nat cut\<rparr>
         else if cut < 0 then
           v\<lparr>col0 := col0 v + min (nat (- cut)) (ncols v),
             ncols := ncols v - nat (- cut) - nat (- cut)\<rparr>
         else v)"

text \<open>Line 265, \<open>a /= a.sum()\<close>: the pixels of the window are divided where they are.\<close>

definition inside :: "view \<Rightarrow> addr \<Rightarrow> nat \<Rightarrow> nat \<Rightarrow> bool" where
  "inside v a i j \<longleftrightarrow>
     a = buf v \<and> row0 v \<le> i \<and> i < row0 v + nrows v \<and> col0 v \<le> j \<and> j < col0 v + ncols v"

definition idiv_sum :: "heap \<Rightarrow> view \<Rightarrow> heap" where
  "idiv_sum h v =
     h\<lparr>cells := (\<lambda>a i j. if inside v a i j then cells h a i j / np_sum (deref h v)
                          else cells h a i j)\<rparr>"

text \<open>Lines 268 to 271: the lines printed, and the count.\<close>

fun check_fields :: "session \<Rightarrow> string list \<Rightarrow> nat \<Rightarrow> string list \<times> nat" where
  "check_fields s [] ct = ([], ct)"
| "check_fields s (name # names) ct =
     (if \<not> hasattr s name then
        (case check_fields s names (ct + 1) of
           (out, n) \<Rightarrow> ((''The keyword of '' @ name @ '' is missing.'') # out, n))
      else check_fields s names ct)"

definition ready :: "nat \<Rightarrow> string list" where
  "ready ct = (if ct = 0 then [''The data_process is ready to go to pass to FittingSpecify!'']
               else [])"

definition box_message :: string where
  "box_message = ''The PSF is not a box size, will cut it to a box size automatically.''"

text \<open>
  The method: the outcome (the count \<open>ct\<close> when it returns), the lines printed, the
  session and the store.
\<close>

definition checkout :: "session \<Rightarrow> heap \<Rightarrow> (error + nat) \<times> string list \<times> session \<times> heap" where
  "checkout s h =
     (case selected_PSF s of
        Inl e \<Rightarrow> (Inl e, [], s, h)
      | Inr (k, l, v) \<Rightarrow>
          if nrows v \<noteq> 0 \<and> nrows v \<noteq> ncols v then
            (let s1 = s\<lparr>PSF_list := Some (l[k := trim v])\<rparr>;
                 h1 = idiv_sum h (trim v)
             in if nrows (trim v) \<noteq> ncols (trim v) then (Inl ValueError, [box_message], s1, h1)
                else (case check_fields s1 checklist 0 of
                        (out, ct) \<Rightarrow> (Inr ct, box_message # out @ ready ct, s1, h1)))
          else (case check_fields s checklist 0 of
                  (out, ct) \<Rightarrow> (Inr ct, out @ ready ct, s, h)))"

section \<open>Sample collaborators\<close>

text \<open>
  Modelled from the spec: the collaborators are not part of \<open>data_process.py\<close>. For
  evaluating the methods on concrete sessions, \<open>sample_env\<close> is one set of them, written
  after the contracts of the interfaces: a cutout is the square of side 2 * radius + 1
  around the centre, the centring cutout keeps the centre it is given, the fit of a sample
  is its mean and deviation, the transform from sky to pixel coordinates is the identity,
  and nothing is detected, measured or typed.
\<close>

definition coords_xy :: "coords \<Rightarrow> real \<times> real" where
  "coords_xy c = (case c of Flat x y \<Rightarrow> (x, y) | Nested x y \<Rightarrow> (x, y))"

definition sample_cutout :: "ndarray \<Rightarrow> coords \<Rightarrow> int \<Rightarrow> ndarray" where
  "sample_cutout img c r =
     \<lparr>shape0 = nat (2 * r + 1), shape1 = nat (2 * r + 1),
      px = (\<lambda>i j. px img (nat (trunc0 (snd (coords_xy c)) - r) + i)
                          (nat (trunc0 (fst (coords_xy c)) - r) + j))\<rparr>"

definition sample_env :: collaborators where
  "sample_env =
     \<lparr>read_pixel_scale = (\<lambda>hdr. 3600),
      measure_bkg = (\<lambda>img. \<lparr>shape0 = 1, shape1 = 1, px = (\<lambda>i j. 0)\<rparr>),
      all_world2pix = (\<lambda>hdr p. p),
      cutout = sample_cutout,
      cut_center_auto = (\<lambda>img c k r. (sample_cutout img c r, np_int0 (coords_xy c))),
      fit_data_oneD_gaussian = (\<lambda>e. (np_mean e, np_std e)),
      esti_bgkstd = (\<lambda>stamp. 1),
      detect_obj = (\<lambda>stamp. []),
      mask_obj = (\<lambda>stamp aps. []),
      search_local_max = (\<lambda>img. []),
      measure_FWHM = (\<lambda>stamp r. []),
      input_line = []\<rparr>"

text \<open>A store whose pixels are all \<open>c\<close>, and a window of \<open>m\<close> rows and \<open>n\<close> columns at an address.\<close>

definition flat_heap :: "real \<Rightarrow> heap" where
  "flat_heap c = \<lparr>cells = (\<lambda>a i j. c), fresh = 8\<rparr>"

definition whole :: "addr \<Rightarrow> nat \<Rightarrow> nat \<Rightarrow> view" where
  "whole a m n = \<lparr>buf = a, row0 = 0, col0 = 0, nrows = m, ncols = n\<rparr>"

text \<open>The session that the constructor gives for a target at pixel (5, 5) of an image at address 0.\<close>

definition sample_session :: session where
  "sample_session =
     \<lparr>target_pos = (5, 5), exptime = None, if_plot = False, header = None, deltaPix = None,
      fov_image = Some (whole 0 11 11), fov_noise_map = None, psf_id_for_fitting = Some 0,
      zp = 27, bkg_std = None, noise_map = None, apertures = None, target_stamp = None,
      target_mask = None, PSF_pos_list = None, PSF_list = None\<rparr>"

definition sample_args :: init_args where
  "sample_args =
     \<lparr>arg_fov_image = None, arg_target_pos = Some (107 / 10, - 32 / 10),
      arg_pos_type = ''pixel'', arg_header = None, arg_exptime = None,
      arg_fov_noise_map = None, arg_rm_bkglight = False, arg_if_plot = False, arg_zp = None\<rparr>"

text \<open>
  Sessions for checkout: a PSF stamp of three rows and one column; one of two rows and
  one column; a stamp with no rows; and a session whose PSF list holds one array twice,
  the target stamp being that array too.
\<close>

definition tall_PSF_session :: session where
  "tall_PSF_session = sample_session\<lparr>PSF_list := Some [whole 1 3 1], target_stamp := Some (whole 2 3 3)\<rparr>"

definition odd_PSF_session :: session where
  "odd_PSF_session = sample_session\<lparr>PSF_list := Some [whole 1 2 1]\<rparr>"

definition no_rows_session :: session where
  "no_rows_session = sample_session\<lparr>PSF_list := Some [whole 1 0 1]\<rparr>"

definition shared_session :: session where
  "shared_session =
     sample_session\<lparr>PSF_list := Some [whole 1 3 1, whole 1 3 1], target_stamp := Some (whole 1 3 1)\<rparr>"

text \<open>
  A field for the search of PSF candidates: the pixels of row \<open>i\<close> are all \<open>i\<close>, four
  local maxima are found, and the FWHM measured on a stamp is its first pixel, but for
  the stamp at row 4, where two measurements disagree.
\<close>

definition ramp_heap :: heap where
  "ramp_heap = \<lparr>cells = (\<lambda>a i j. real i), fresh = 8\<rparr>"

definition star_env :: collaborators where
  "star_env =
     sample_env\<lparr>search_local_max := (\<lambda>img. [Flat 0 2, Flat 1 2, Flat 3 3, Flat 4 4]),
                measure_FWHM := (\<lambda>stamp r. if px stamp 0 0 = 4 then [1, 3] else [px stamp 0 0])\<rparr>"

definition sample_materials :: materials_args where
  "sample_materials =
     \<lparr>arg_cut_kernel = None, arg_radius = Some 1, arg_radius_list = None,
      arg_bkg_std = None, arg_create_mask = False\<rparr>"

section \<open>Evaluation on concrete sessions\<close>

lemmas sample_defs = sample_env_def sample_session_def sample_materials_def flat_heap_def whole_def
  sample_cutout_def coords_xy_def

lemmas materials_defs = generate_target_materials_def choose_radius_def cut_target_def cutout_fov_def
  make_noise_map_def resolve_exptime_def make_mask_def alloc_def deref_def pixel_coords_def trunc0_def
  broadcast2_def bdim_def bidx_def np_map_def ones_like_def

section \<open>Construction: the target position\<close>

lemma trunc0_of_int: "trunc0 (real_of_int m) = m"
  by (simp add: trunc0_def)

text \<open>
  Claim C8, as amended. For a target position given with position type \<open>pixel\<close>, whose
  coordinates are in the range of \<open>intp\<close>, the constructor stores that pair with each
  coordinate cut to the integer towards zero, not rounded to the nearest; a pair of
  whole numbers is stored as it is. The constructor can fail on this path only in the
  subtraction of the background light.
\<close>

theorem init_pixel_target_pos:
  assumes "arg_target_pos a = Some p" and "arg_pos_type a = ''pixel''"
    and "intp_range (fst p)" and "intp_range (snd p)"
  shows "(case DataProcess_init env a h of
            Inr (s, h') \<Rightarrow> target_pos s = (trunc0 (fst p), trunc0 (snd p))
          | Inl e \<Rightarrow> e = ValueError \<and> arg_rm_bkglight a \<and> arg_fov_image a \<noteq> None)
         \<and> (\<forall>m n. p = (real_of_int m, real_of_int n) \<longrightarrow> np_int0 p = (m, n))"
  using assms
  by (auto simp: DataProcess_init_def resolve_target_pos_def remove_bkglight_def np_int0_def
        to_intp_def broadcast2_def trunc0_of_int alloc_def
        split: sum.splits option.splits prod.splits if_splits)

theorem init_pixel_target_pos_witness:
  "arg_target_pos sample_args = Some (107 / 10, - 32 / 10) \<and> arg_pos_type sample_args = ''pixel'' \<and>
   intp_range (107 / 10) \<and> intp_range (- 32 / 10) \<and>
   \<not> isl (DataProcess_init sample_env sample_args (flat_heap 0)) \<and>
   target_pos (fst (projr (DataProcess_init sample_env sample_args (flat_heap 0)))) = (10, - 3)"
  using init_pixel_target_pos [of sample_args "(107 / 10, - 32 / 10)" sample_env "flat_heap 0"]
  by (auto simp: sample_args_def trunc0_def intp_range_def split: sum.splits)

text \<open>
  Claim C8 as stated fails for a coordinate that is not whole: for the pixel position
  (10.7, -3.2) the constructor stores (10, -3), where rounding gives (11, -3).
\<close>

theorem integer_rounded_counterexample:
  "\<not> isl (DataProcess_init sample_env sample_args (flat_heap 0)) \<and>
   target_pos (fst (projr (DataProcess_init sample_env sample_args (flat_heap 0)))) = (10, - 3) \<and>
   arg_target_pos sample_args = Some (107 / 10, - 32 / 10) \<and>
   round (107 / 10 :: real) = 11 \<and> round (- 32 / 10 :: real) = - 3"
proof -
  have "round (107 / 10 :: real) = 11" "round (- 32 / 10 :: real) = - 3"
    by (simp_all add: round_def)
  then show ?thesis
    by (simp add: DataProcess_init_def resolve_target_pos_def remove_bkglight_def np_int0_def
          to_intp_def intp_range_def trunc0_def sample_args_def)
qed

section \<open>generate_target_materials: the noise map\<close>

lemma cut_target_keeps:
  "cut_target env k r s h = Inr (stamp, s1) \<Longrightarrow>
     exptime s1 = exptime s \<and> header s1 = header s \<and> fov_noise_map s1 = fov_noise_map s
     \<and> bkg_std s1 = bkg_std s \<and> fov_image s1 = fov_image s"
  by (auto simp: cut_target_def split: option.splits sum.splits prod.splits)

lemma resolve_exptime_cong:
  "exptime s1 = exptime s \<Longrightarrow> header s1 = header s \<Longrightarrow> resolve_exptime s1 = resolve_exptime s"
  by (simp add: resolve_exptime_def split: option.splits)

lemma make_noise_map_scalar:
  assumes "fov_noise_map s = None" and "resolve_exptime s = Inr (Scalar t)"
  shows "fst (make_noise_map env bkg r stamp s h) \<noteq> Inr ()"
proof -
  have "resolve_exptime (s\<lparr>bkg_std := b\<rparr>) = Inr (Scalar t)" for b
    using assms(2) resolve_exptime_cong [of "s\<lparr>bkg_std := b\<rparr>" s] by simp
  with assms show ?thesis
    by (auto simp: make_noise_map_def split: option.splits sum.splits)
qed

text \<open>
  Claim C1. The claim asks for the noise map sqrt(|stamp / exptime| + bkg_std^2) for a
  scalar exposure time as for a map. With no noise map of the field and an exposure time
  that resolves to a scalar (given to the constructor, or read from the header), the
  method never returns: line 145 reads \<open>exptime_stamp\<close>, which only line 144 binds, for
  an array. No noise map is stored.
\<close>

theorem scalar_exptime_never_succeeds:
  assumes "fov_noise_map s = None" and "resolve_exptime s = Inr (Scalar t)"
  shows "fst (generate_target_materials env a s h) \<noteq> Inr ()"
proof (cases "choose_radius env a s h")
  case (Inl e)
  then show ?thesis by (simp add: generate_target_materials_def)
next
  case (Inr r)
  show ?thesis
  proof (cases "cut_target env (arg_cut_kernel a) r s h")
    case (Inl e)
    with Inr show ?thesis by (simp add: generate_target_materials_def)
  next
    case inr: (Inr p)
    obtain stamp s1 where p: "p = (stamp, s1)" by (cases p)
    from inr p cut_target_keeps have k: "fov_noise_map s1 = None" "resolve_exptime s1 = Inr (Scalar t)"
      using assms resolve_exptime_cong [of s1 s] by (auto dest!: cut_target_keeps)
    obtain ts h1 where al: "alloc h stamp = (ts, h1)" by (cases "alloc h stamp")
    from make_noise_map_scalar [OF k, of env "arg_bkg_std a" r stamp h1]
    show ?thesis using Inr inr p al
      by (auto simp: generate_target_materials_def split: prod.splits sum.splits)
  qed
qed

theorem scalar_exptime_never_succeeds_witness:
  "fov_noise_map (sample_session\<lparr>exptime := Some (Scalar 100)\<rparr>) = None \<and>
   resolve_exptime (sample_session\<lparr>exptime := Some (Scalar 100)\<rparr>) = Inr (Scalar 100) \<and>
   fst (generate_target_materials sample_env sample_materials
          (sample_session\<lparr>exptime := Some (Scalar 100)\<rparr>) (flat_heap 2)) = Inl UnboundLocalError \<and>
   fst (generate_target_materials sample_env sample_materials
          (sample_session\<lparr>exptime := Some (Scalar 100)\<rparr>) (flat_heap 2)) \<noteq> Inr ()"
  using scalar_exptime_never_succeeds [of "sample_session\<lparr>exptime := Some (Scalar 100)\<rparr>" 100
          sample_env sample_materials "flat_heap 2"]
  by (simp add: materials_defs sample_defs)

text \<open>
  Claim C3. The claim asks that a background deviation given as argument be the one in
  the noise map. The method never reads the value of the argument: line 133 only tests it
  against \<open>None\<close>, and line 145 reads \<open>self.bkg_std\<close>, which line 136 alone assigns. So the
  outcome is the same for any two values given; and on a session that has not yet
  estimated a deviation, with an exposure map and the deviation 1/2 given, the method
  raises AttributeError.
\<close>

theorem explicit_bkg_std_is_not_read:
  "generate_target_materials env (a\<lparr>arg_bkg_std := Some b\<rparr>) s h
     = generate_target_materials env (a\<lparr>arg_bkg_std := Some b'\<rparr>) s h
   \<and> fst (generate_target_materials sample_env (sample_materials\<lparr>arg_bkg_std := Some (1 / 2)\<rparr>)
            (sample_session\<lparr>exptime := Some (Map (whole 1 11 11))\<rparr>) (flat_heap 2))
       = Inl AttributeError"
proof
  show "generate_target_materials env (a\<lparr>arg_bkg_std := Some b\<rparr>) s h
     = generate_target_materials env (a\<lparr>arg_bkg_std := Some b'\<rparr>) s h"
    by (simp add: generate_target_materials_def choose_radius_def make_noise_map_def
          cong: sum.case_cong option.case_cong prod.case_cong)
  show "fst (generate_target_materials sample_env (sample_materials\<lparr>arg_bkg_std := Some (1 / 2)\<rparr>)
            (sample_session\<lparr>exptime := Some (Map (whole 1 11 11))\<rparr>) (flat_heap 2))
       = Inl AttributeError"
    by (simp add: materials_defs sample_defs)
qed

text \<open>
  The half of claim C1 that the code keeps: with an exposure map whose cutout has the
  shape of the stamp, a call of the noise step that returns stores the noise map
  sqrt(|stamp / exptime_stamp| + bkg_std^2), pixel by pixel, with the deviation that the
  session then holds.
\<close>

lemma noise_map_of_exposure_map:
  assumes none: "fov_noise_map s = None" and ex: "exptime s = Some (Map m)"
    and sh: "shape0 (cutout env (deref h m) (pixel_coords (target_pos s)) r) = shape0 stamp"
            "shape1 (cutout env (deref h m) (pixel_coords (target_pos s)) r) = shape1 stamp"
    and ok: "make_noise_map env bkg r stamp s h = (Inr (), s2, h2)"
  shows "\<exists>w b. noise_map s2 = Some w \<and> bkg_std s2 = Some b \<and>
           (\<forall>i<shape0 stamp. \<forall>j<shape1 stamp.
              px (deref h2 w) i j
                = sqrt (\<bar>px stamp i j / px (cutout env (deref h m) (pixel_coords (target_pos s)) r) i j\<bar>
                        + b ^ 2))"
  using assms
  by (auto simp: make_noise_map_def resolve_exptime_def alloc_def deref_def np_map_def
        broadcast2_def bdim_def bidx_def cutout_fov_def
        split: option.splits sum.splits if_splits)

text \<open>
  On a session that holds the deviation 1 from an earlier call, the deviation 1/2 given as
  argument is passed over: with stamp and exposure 2 everywhere the noise map is
  sqrt (|2 / 2| + 1), not sqrt (|2 / 2| + 1/4).
\<close>

lemma stale_bkg_std_is_used:
  "px (deref (snd (snd (generate_target_materials sample_env (sample_materials\<lparr>arg_bkg_std := Some (1 / 2)\<rparr>)
            (sample_session\<lparr>exptime := Some (Map (whole 1 11 11)), bkg_std := Some 1\<rparr>) (flat_heap 2))))
         (whole 9 3 3)) 0 0 = sqrt 2 \<and>
   noise_map (fst (snd (generate_target_materials sample_env (sample_materials\<lparr>arg_bkg_std := Some (1 / 2)\<rparr>)
            (sample_session\<lparr>exptime := Some (Map (whole 1 11 11)), bkg_std := Some 1\<rparr>) (flat_heap 2))))
     = Some (whole 9 3 3)"
  by (simp add: materials_defs sample_defs)

section \<open>find_PSF: positions given in sky coordinates\<close>

text \<open>
  Claim C4. The claim asks that the transform of every given pair be stored and a stamp
  cut for each. Line 238 takes its range from \<open>self.PSF_pos_list\<close>, not from the list
  given: on a session that holds no position list yet, the call raises AttributeError and
  stores neither positions nor stamps.
\<close>

theorem wcs_positions_need_old_list:
  "PSF_pos_list s = None \<Longrightarrow> find_PSF env r (Some ps) ''wcs'' u s h = (Inl AttributeError, s, h)"
  by (simp add: find_PSF_def given_PSF_pos_def)

theorem wcs_positions_need_old_list_witness:
  "PSF_pos_list sample_session = None \<and>
   find_PSF sample_env 2 (Some [(3, 4)]) ''wcs'' False sample_session (flat_heap 2)
     = (Inl AttributeError, sample_session, flat_heap 2)"
  using wcs_positions_need_old_list [of sample_session sample_env 2 "[(3, 4)]" False "flat_heap 2"]
  by (simp add: sample_session_def)

text \<open>
  The sibling branch stores the list given. On a session that already holds a list of
  positions, the \<open>wcs\<close> branch stores as many transforms as that list is long, each as
  the array of shape (1, 2) that the transform returns.
\<close>

lemma wcs_positions_follow_old_list:
  "PSF_pos_list s = Some old \<Longrightarrow> length old \<le> length ps \<Longrightarrow>
     given_PSF_pos env ps ''wcs'' s
       = Inr (s\<lparr>PSF_pos_list :=
                 Some (map (\<lambda>i. case all_world2pix env (header s) (ps ! i) of (x, y) \<Rightarrow> Nested x y)
                         [0..<length old])\<rparr>)"
  by (simp add: given_PSF_pos_def)

lemma pixel_positions_stored:
  "given_PSF_pos env ps ''pixel'' s = Inr (s\<lparr>PSF_pos_list := Some (map (\<lambda>p. Flat (fst p) (snd p)) ps)\<rparr>)"
  by (simp add: given_PSF_pos_def)

section \<open>checkout\<close>

text \<open>
  Claim C2. The claim asks that every missing field be reported by name and that no
  missing field raise. Line 258 reads \<open>self.PSF_list\<close> before the loop over the checklist:
  on a session without a PSF list, checkout raises AttributeError and prints nothing.
\<close>

theorem checkout_without_PSF_list:
  "PSF_list s = None \<Longrightarrow> checkout s h = (Inl AttributeError, [], s, h)"
  by (simp add: checkout_def selected_PSF_def)

theorem checkout_without_PSF_list_witness:
  "PSF_list sample_session = None \<and>
   checkout sample_session (flat_heap 2) = (Inl AttributeError, [], sample_session, flat_heap 2)"
  using checkout_without_PSF_list [of sample_session "flat_heap 2"]
  by (simp add: sample_session_def)

subsection \<open>The selected PSF stamp\<close>

text \<open>Line 260: half the difference of the two axes, towards zero.\<close>

lemma trunc0_half_diff:
  "trunc0 ((real n - real m) / 2) = (if m \<le> n then int ((n - m) div 2) else - int ((m - n) div 2))"
proof (cases "m \<le> n")
  case True
  then have "(real n - real m) / 2 = real (n - m) / real 2" by (simp add: of_nat_diff)
  then have "\<lfloor>(real n - real m) / 2\<rfloor> = int ((n - m) div 2)"
    by (simp only: floor_divide_of_nat_eq)
  with True show ?thesis by (simp add: trunc0_def)
next
  case False
  then have lt: "n < m" by simp
  then have "- ((real n - real m) / 2) = real (m - n) / real 2" by (simp add: of_nat_diff field_simps)
  then have "\<lfloor>- ((real n - real m) / 2)\<rfloor> = int ((m - n) div 2)"
    by (simp only: floor_divide_of_nat_eq)
  then have "\<lceil>(real n - real m) / 2\<rceil> = - int ((m - n) div 2)"
    by (simp add: ceiling_def)
  moreover from lt have "\<not> 0 \<le> (real n - real m) / 2" by simp
  ultimately show ?thesis using lt by (simp add: trunc0_def)
qed

lemma trim_eq:
  "trim v = v\<lparr>row0 := row0 v + (nrows v - ncols v) div 2,
             nrows := nrows v - 2 * ((nrows v - ncols v) div 2),
             col0 := col0 v + (ncols v - nrows v) div 2,
             ncols := ncols v - 2 * ((ncols v - nrows v) div 2)\<rparr>"
  by (cases "ncols v \<le> nrows v") (auto simp: trim_def trunc0_half_diff Let_def min_def mult_2)

lemma trim_shape_even:
  assumes "even (nrows v + ncols v)"
  shows "nrows (trim v) = min (nrows v) (ncols v)" and "ncols (trim v) = min (nrows v) (ncols v)"
proof -
  have "nrows v - 2 * ((nrows v - ncols v) div 2) = min (nrows v) (ncols v)"
  proof (cases "ncols v \<le> nrows v")
    case True
    with assms have "even (nrows v - ncols v)" by simp
    then have "2 * ((nrows v - ncols v) div 2) = nrows v - ncols v" by simp
    with True show ?thesis by simp
  next
    case False then show ?thesis by simp
  qed
  moreover have "ncols v - 2 * ((ncols v - nrows v) div 2) = min (nrows v) (ncols v)"
  proof (cases "nrows v \<le> ncols v")
    case True
    with assms have "even (ncols v - nrows v)" by simp
    then have "2 * ((ncols v - nrows v) div 2) = ncols v - nrows v" by simp
    with True show ?thesis by simp
  next
    case False then show ?thesis by simp
  qed
  ultimately show "nrows (trim v) = min (nrows v) (ncols v)" "ncols (trim v) = min (nrows v) (ncols v)"
    by (simp_all add: trim_eq)
qed

lemma trim_shape_odd:
  assumes "odd (nrows v + ncols v)"
  shows "nrows (trim v) \<noteq> ncols (trim v)"
proof
  assume "nrows (trim v) = ncols (trim v)"
  then have "nrows v - 2 * ((nrows v - ncols v) div 2) = ncols v - 2 * ((ncols v - nrows v) div 2)"
    by (simp add: trim_eq)
  then have "even (nrows v - 2 * ((nrows v - ncols v) div 2) + (ncols v - 2 * ((ncols v - nrows v) div 2)))"
    by simp
  moreover have "2 * ((nrows v - ncols v) div 2) \<le> nrows v" "2 * ((ncols v - nrows v) div 2) \<le> ncols v"
    by simp_all
  ultimately have "even (nrows v + ncols v)"
    by (metis (no_types, lifting) even_add even_diff_nat dvd_triv_left not_less)
  with assms show False by simp
qed

lemma px_deref_idiv_sum:
  "px (deref (idiv_sum h w) w) i j = px (deref h w) i j / np_sum (deref h w)"
  by (simp add: deref_def idiv_sum_def inside_def)

lemma np_sum_idiv_sum:
  assumes "np_sum (deref h w) \<noteq> 0"
  shows "np_sum (deref (idiv_sum h w) w) = 1"
proof -
  define T where "T = np_sum (deref h w)"
  have "np_sum (deref (idiv_sum h w) w)
          = (\<Sum>i<nrows w. \<Sum>j<ncols w. px (deref (idiv_sum h w) w) i j)"
    by (simp add: np_sum_def deref_def)
  also have "\<dots> = (\<Sum>i<nrows w. \<Sum>j<ncols w. px (deref h w) i j / T)"
    by (simp only: px_deref_idiv_sum T_def)
  also have "\<dots> = (\<Sum>i<nrows w. \<Sum>j<ncols w. px (deref h w) i j) / T"
    by (simp only: sum_divide_distrib)
  also have "(\<Sum>i<nrows w. \<Sum>j<ncols w. px (deref h w) i j) = T"
    by (simp add: T_def np_sum_def deref_def)
  finally show ?thesis using assms by (simp add: T_def)
qed

lemma inside_trim: "inside (trim v) a i j \<Longrightarrow> inside v a i j"
  by (auto simp: inside_def trim_eq) (arith+)

lemma cells_idiv_sum_outside: "\<not> inside w a i j \<Longrightarrow> cells (idiv_sum h w) a i j = cells h a i j"
  by (simp add: idiv_sum_def)

lemma cells_idiv_sum_inside:
  "inside w a i j \<Longrightarrow> cells (idiv_sum h w) a i j = cells h a i j / np_sum (deref h w)"
  by (simp add: idiv_sum_def)

lemma deref_idiv_sum_disjoint:
  assumes "\<And>a i j. inside u a i j \<Longrightarrow> \<not> inside w a i j"
  shows "deref (idiv_sum h w) u = deref h u"
proof -
  have "inside u (buf u) (row0 u + i) (col0 u + j)" if "i < nrows u" "j < ncols u" for i j
    using that by (simp add: inside_def)
  then have "cells (idiv_sum h w) (buf u) (row0 u + i) (col0 u + j) = cells h (buf u) (row0 u + i) (col0 u + j)"
    if "i < nrows u" "j < ncols u" for i j
    using that assms cells_idiv_sum_outside by blast
  then show ?thesis by (auto simp: deref_def fun_eq_iff)
qed

lemma check_fields_report:
  "check_fields s names ct =
     (map (\<lambda>name. ''The keyword of '' @ name @ '' is missing.'') (filter (\<lambda>name. \<not> hasattr s name) names),
      ct + length (filter (\<lambda>name. \<not> hasattr s name) names))"
  by (induction names arbitrary: ct) auto

text \<open>
  Claim C5, as amended. For a selected PSF stamp that has at least one row and is not
  square, checkout puts in the PSF list, at the selected index, the window onto the
  middle of the longer axis, as many rows (or columns) cut at one end as at the other,
  and divides the pixels of that window, where they are, by their sum; over the reals
  they then sum to 1 when that sum is not 0. When the lengths of the axes differ by an
  even number, the window is square with the side of the shorter axis and checkout
  returns. When they differ by an odd number, the window is not square and checkout
  raises ValueError, having printed one line; the entry and the divided pixels stay as
  the statements before the \<open>raise\<close> left them.
\<close>

theorem checkout_trims_selected_PSF:
  assumes "selected_PSF s = Inr (k, l, v)" and "nrows v \<noteq> 0" and "nrows v \<noteq> ncols v"
  shows "\<exists>res out.
           checkout s h = (res, out, s\<lparr>PSF_list := Some (l[k := trim v])\<rparr>, idiv_sum h (trim v)) \<and>
           buf (trim v) = buf v \<and>
           row0 (trim v) = row0 v + (nrows v - ncols v) div 2 \<and>
           col0 (trim v) = col0 v + (ncols v - nrows v) div 2 \<and>
           nrows (trim v) = nrows v - 2 * ((nrows v - ncols v) div 2) \<and>
           ncols (trim v) = ncols v - 2 * ((ncols v - nrows v) div 2) \<and>
           (\<forall>i j. px (deref (idiv_sum h (trim v)) (trim v)) i j
                    = px (deref h (trim v)) i j / np_sum (deref h (trim v))) \<and>
           (np_sum (deref h (trim v)) \<noteq> 0 \<longrightarrow> np_sum (deref (idiv_sum h (trim v)) (trim v)) = 1) \<and>
           (if even (nrows v + ncols v) then
              (\<exists>ct. res = Inr ct) \<and>
              nrows (trim v) = min (nrows v) (ncols v) \<and> ncols (trim v) = min (nrows v) (ncols v)
            else res = Inl ValueError \<and> out = [box_message] \<and> nrows (trim v) \<noteq> ncols (trim v))"
proof -
  have geom: "buf (trim v) = buf v" "row0 (trim v) = row0 v + (nrows v - ncols v) div 2"
    "col0 (trim v) = col0 v + (ncols v - nrows v) div 2"
    "nrows (trim v) = nrows v - 2 * ((nrows v - ncols v) div 2)"
    "ncols (trim v) = ncols v - 2 * ((ncols v - nrows v) div 2)"
    by (simp_all add: trim_eq)
  have pix: "\<forall>i j. px (deref (idiv_sum h (trim v)) (trim v)) i j
                    = px (deref h (trim v)) i j / np_sum (deref h (trim v))"
    by (simp add: px_deref_idiv_sum)
  have one: "np_sum (deref h (trim v)) \<noteq> 0 \<longrightarrow> np_sum (deref (idiv_sum h (trim v)) (trim v)) = 1"
    by (simp add: np_sum_idiv_sum)
  show ?thesis
  proof (cases "even (nrows v + ncols v)")
    case True
    from trim_shape_even [OF True] have sq: "nrows (trim v) = ncols (trim v)" by simp
    obtain out ct where cf: "check_fields (s\<lparr>PSF_list := Some (l[k := trim v])\<rparr>) checklist 0 = (out, ct)"
      by (cases "check_fields (s\<lparr>PSF_list := Some (l[k := trim v])\<rparr>) checklist 0")
    have "checkout s h = (Inr ct, box_message # out @ ready ct, s\<lparr>PSF_list := Some (l[k := trim v])\<rparr>,
            idiv_sum h (trim v))"
      using assms sq cf by (simp add: checkout_def Let_def)
    with True trim_shape_even [OF True] geom pix one show ?thesis by simp
  next
    case False
    from trim_shape_odd [OF False] have ns: "nrows (trim v) \<noteq> ncols (trim v)" .
    with assms have "checkout s h = (Inl ValueError, [box_message], s\<lparr>PSF_list := Some (l[k := trim v])\<rparr>,
            idiv_sum h (trim v))"
      by (simp add: checkout_def Let_def)
    with False ns geom pix one show ?thesis by simp
  qed
qed

text \<open>
  A stamp of shape (3, 1), every pixel 2: the middle row stays, and becomes 1. A stamp of
  shape (2, 1), every pixel 2: nothing can be cut, both pixels become 1/2, and checkout
  raises.
\<close>

lemmas checkout_defs = checkout_def selected_PSF_def py_index_def trim_def trunc0_def check_fields_report
  checklist_def hasattr_def ready_def idiv_sum_def inside_def deref_def np_sum_def Let_def

theorem checkout_trims_selected_PSF_witness:
  "selected_PSF tall_PSF_session = Inr (0, [whole 1 3 1], whole 1 3 1) \<and>
   nrows (whole 1 3 1) \<noteq> 0 \<and> nrows (whole 1 3 1) \<noteq> ncols (whole 1 3 1) \<and>
   even (nrows (whole 1 3 1) + ncols (whole 1 3 1)) \<and>
   trim (whole 1 3 1) = \<lparr>buf = 1, row0 = 1, col0 = 0, nrows = 1, ncols = 1\<rparr> \<and>
   np_sum (deref (flat_heap 2) (trim (whole 1 3 1))) \<noteq> 0 \<and>
   fst (checkout tall_PSF_session (flat_heap 2)) = Inr 3 \<and>
   np_sum (deref (snd (snd (snd (checkout tall_PSF_session (flat_heap 2))))) (trim (whole 1 3 1))) = 1 \<and>
   selected_PSF odd_PSF_session = Inr (0, [whole 1 2 1], whole 1 2 1) \<and>
   nrows (whole 1 2 1) \<noteq> 0 \<and> nrows (whole 1 2 1) \<noteq> ncols (whole 1 2 1) \<and>
   odd (nrows (whole 1 2 1) + ncols (whole 1 2 1)) \<and>
   trim (whole 1 2 1) = whole 1 2 1 \<and>
   checkout odd_PSF_session (flat_heap 2)
     = (Inl ValueError, [box_message], odd_PSF_session, idiv_sum (flat_heap 2) (whole 1 2 1)) \<and>
   px (deref (snd (snd (snd (checkout odd_PSF_session (flat_heap 2))))) (whole 1 2 1)) 0 0 = 1 / 2 \<and>
   px (deref (snd (snd (snd (checkout odd_PSF_session (flat_heap 2))))) (whole 1 2 1)) 1 0 = 1 / 2"
  using checkout_trims_selected_PSF [of tall_PSF_session 0 "[whole 1 3 1]" "whole 1 3 1" "flat_heap 2"]
    checkout_trims_selected_PSF [of odd_PSF_session 0 "[whole 1 2 1]" "whole 1 2 1" "flat_heap 2"]
  by (simp add: checkout_defs tall_PSF_session_def odd_PSF_session_def sample_session_def whole_def
        flat_heap_def)

text \<open>
  Claim C5 as stated fails in two places. A stamp of shape (3, 1) whose pixels are 0 is
  trimmed to shape (1, 1) and divided by its sum 0: the result does not sum to 1. A stamp
  of shape (0, 1) is not square and no trim can make it so, yet line 258 passes it by
  (\<open>len(...) != 0\<close>): checkout raises nothing and reports the four missing fields.
\<close>

theorem trimmed_PSF_counterexample:
  "np_sum (deref (snd (snd (snd (checkout tall_PSF_session (flat_heap 0)))))
             \<lparr>buf = 1, row0 = 1, col0 = 0, nrows = 1, ncols = 1\<rparr>) \<noteq> 1 \<and>
   PSF_list (fst (snd (snd (checkout tall_PSF_session (flat_heap 0)))))
     = Some [\<lparr>buf = 1, row0 = 1, col0 = 0, nrows = 1, ncols = 1\<rparr>] \<and>
   nrows (whole 1 0 1) \<noteq> ncols (whole 1 0 1) \<and> odd (nrows (whole 1 0 1) + ncols (whole 1 0 1)) \<and>
   checkout no_rows_session (flat_heap 2)
     = (Inr 4, [''The keyword of deltaPix is missing.'', ''The keyword of target_stamp is missing.'',
                ''The keyword of noise_map is missing.'', ''The keyword of target_mask is missing.''],
        no_rows_session, flat_heap 2)"
  by (simp add: checkout_defs tall_PSF_session_def no_rows_session_def sample_session_def whole_def flat_heap_def)


subsection \<open>The report, and what checkout leaves alone\<close>

text \<open>
  Where the selected PSF stamp can be read and is square (or has no rows), checkout
  raises nothing, changes nothing, prints one line for each field of the checklist that
  is missing, in the order of the checklist, and counts them.
\<close>

lemma checkout_reports_missing:
  assumes "selected_PSF s = Inr (k, l, v)" and "nrows v = 0 \<or> nrows v = ncols v"
  shows "checkout s h =
           (Inr (length (filter (\<lambda>name. \<not> hasattr s name) checklist)),
            map (\<lambda>name. ''The keyword of '' @ name @ '' is missing.'')
              (filter (\<lambda>name. \<not> hasattr s name) checklist)
              @ ready (length (filter (\<lambda>name. \<not> hasattr s name) checklist)),
            s, h)"
  using assms by (auto simp: checkout_def check_fields_report)

lemma checkout_cases:
  assumes "selected_PSF s = Inr (k, l, v)"
  shows "snd (snd (checkout s h)) = (s, h) \<or>
         snd (snd (checkout s h)) = (s\<lparr>PSF_list := Some (l[k := trim v])\<rparr>, idiv_sum h (trim v))"
  using assms by (auto simp: checkout_def Let_def split: prod.splits)

lemma selected_PSF_list: "selected_PSF s = Inr (k, l, v) \<Longrightarrow> PSF_list s = Some l"
  by (auto simp: selected_PSF_def split: option.splits)

text \<open>
  Claim C10, as amended. Checkout assigns no attribute of the session: at most it puts
  the trimmed window in the PSF list at the selected index. In the store it writes only
  to pixels of the selected PSF stamp, and allocates nothing. So every array that shares
  no pixel with the selected PSF stamp reads after checkout as before; an array that
  shares pixels with it is not covered.
\<close>

theorem checkout_frame:
  "case checkout s h of
     (res, out, s', h') \<Rightarrow>
       s' = s\<lparr>PSF_list := PSF_list s'\<rparr> \<and> fresh h' = fresh h \<and>
       (case selected_PSF s of
          Inl e \<Rightarrow> s' = s \<and> h' = h
        | Inr (k, l, v) \<Rightarrow>
            (PSF_list s' = Some l \<or> PSF_list s' = Some (l[k := trim v])) \<and>
            (\<forall>a i j. \<not> inside v a i j \<longrightarrow> cells h' a i j = cells h a i j) \<and>
            (\<forall>w. (\<forall>a i j. inside w a i j \<longrightarrow> \<not> inside v a i j) \<longrightarrow> deref h' w = deref h w))"
proof (cases "selected_PSF s")
  case (Inl e)
  then show ?thesis by (simp add: checkout_def)
next
  case (Inr p)
  obtain k l v where p: "p = (k, l, v)" by (cases p)
  with Inr have sel: "selected_PSF s = Inr (k, l, v)" by simp
  obtain res out s' h' where c: "checkout s h = (res, out, s', h')" by (cases "checkout s h")
  from checkout_cases [OF sel, of h] c
  consider "s' = s" "h' = h" | "s' = s\<lparr>PSF_list := Some (l[k := trim v])\<rparr>" "h' = idiv_sum h (trim v)"
    by auto
  then show ?thesis
  proof cases
    case 1
    with c sel selected_PSF_list [OF sel] show ?thesis by simp
  next
    case 2
    have a: "\<forall>a i j. \<not> inside v a i j \<longrightarrow> cells h' a i j = cells h a i j"
      using 2 inside_trim cells_idiv_sum_outside by blast
    have b: "\<forall>w. (\<forall>a i j. inside w a i j \<longrightarrow> \<not> inside v a i j) \<longrightarrow> deref h' w = deref h w"
      using 2 inside_trim deref_idiv_sum_disjoint by blast
    have "fresh h' = fresh h" using 2 by (simp add: idiv_sum_def)
    with a b 2 c sel show ?thesis by simp
  qed
qed

theorem checkout_frame_witness:
  "selected_PSF tall_PSF_session = Inr (0, [whole 1 3 1], whole 1 3 1) \<and>
   buf (whole 2 3 3) \<noteq> buf (whole 1 3 1) \<and>
   target_stamp (fst (snd (snd (checkout tall_PSF_session (flat_heap 2))))) = Some (whole 2 3 3) \<and>
   deref (snd (snd (snd (checkout tall_PSF_session (flat_heap 2))))) (whole 2 3 3)
     = deref (flat_heap 2) (whole 2 3 3)"
proof -
  have sel: "selected_PSF tall_PSF_session = Inr (0, [whole 1 3 1], whole 1 3 1)"
    by (simp add: selected_PSF_def py_index_def tall_PSF_session_def sample_session_def)
  have dis: "\<forall>a i j. inside (whole 2 3 3) a i j \<longrightarrow> \<not> inside (whole 1 3 1) a i j"
    by (simp add: inside_def whole_def)
  obtain res out s' h' where c: "checkout tall_PSF_session (flat_heap 2) = (res, out, s', h')"
    by (cases "checkout tall_PSF_session (flat_heap 2)")
  from checkout_frame [of tall_PSF_session "flat_heap 2"] c sel dis
  have "s' = tall_PSF_session\<lparr>PSF_list := PSF_list s'\<rparr>" "deref h' (whole 2 3 3) = deref (flat_heap 2) (whole 2 3 3)"
    by simp_all
  moreover from this(1) have "target_stamp s' = target_stamp tall_PSF_session"
    by (metis session.select_convs(13) session.surjective session.update_convs(16))
  ultimately show ?thesis using sel c
    by (simp add: tall_PSF_session_def whole_def)
qed

text \<open>
  Claim C10 as stated fails where the selected PSF array is also held elsewhere. In
  \<open>shared_session\<close> the PSF list holds one array of shape (3, 1) at both indices and
  the target stamp is that array; every pixel is 2. Checkout returns; the entry at index
  1 and the target stamp still refer to the array, and its middle pixel is now 1: line
  262 made a view of it, and line 265 divided the pixels of the view where they are.
\<close>

theorem checkout_frame_counterexample:
  "fst (checkout shared_session (flat_heap 2)) = Inr 3 \<and>
   target_stamp shared_session = Some (whole 1 3 1) \<and>
   target_stamp (fst (snd (snd (checkout shared_session (flat_heap 2))))) = Some (whole 1 3 1) \<and>
   PSF_list (fst (snd (snd (checkout shared_session (flat_heap 2)))))
     = Some [\<lparr>buf = 1, row0 = 1, col0 = 0, nrows = 1, ncols = 1\<rparr>, whole 1 3 1] \<and>
   px (deref (flat_heap 2) (whole 1 3 1)) 1 0 = 2 \<and>
   px (deref (snd (snd (snd (checkout shared_session (flat_heap 2))))) (whole 1 3 1)) 1 0 = 1"
  by (simp add: checkout_defs shared_session_def sample_session_def whole_def flat_heap_def)


section \<open>generate_target_materials: the radius\<close>

text \<open>The loop stops at the first radius of the list that passes the test, or runs through.\<close>

lemma radius_loop_find:
  assumes "\<forall>r\<in>set rs. \<not> isl (edge_fraction env s h r)"
  shows "radius_loop env s h rad rs =
           Inr (case find (below_limit env s h) rs of
                  Some r \<Rightarrow> Some r
                | None \<Rightarrow> if rs = [] then rad else Some (last rs))"
  using assms
proof (induction rs arbitrary: rad)
  case Nil
  then show ?case by simp
next
  case (Cons r rs)
  from Cons.prems obtain p where p: "edge_fraction env s h r = Inr p"
    by (cases "edge_fraction env s h r") auto
  show ?case
  proof (cases "p < 0.03")
    case True
    with p show ?thesis by (simp add: below_limit_def)
  next
    case False
    from Cons.prems have "\<forall>r\<in>set rs. \<not> isl (edge_fraction env s h r)" by simp
    from Cons.IH [OF this, of "Some r"] p False show ?thesis
      by (simp add: below_limit_def split: option.splits)
  qed
qed

lemma find_sorted_least:
  "sorted rs \<Longrightarrow> find P rs = Some r \<Longrightarrow> x \<in> set rs \<Longrightarrow> P x \<Longrightarrow> r \<le> (x::int)"
  by (induction rs) (auto split: if_splits)

text \<open>
  Claim C6, as amended. With no radius given, for a radius list that is not empty (the one
  given, or the built-in one) and whose cutouts all have an edge, the radius chosen is the
  first entry, in the order of the list, whose edge fraction is below 3%, or the last
  entry when there is none. When the list is in ascending order, as the built-in list is,
  that first entry is the smallest of the entries below 3%.
\<close>

theorem radius_is_first_below_limit:
  assumes "arg_radius a = None"
    and "rs = (case arg_radius_list a of None \<Rightarrow> default_radius_list | Some l \<Rightarrow> l)"
    and "rs \<noteq> []"
    and "\<forall>r\<in>set rs. \<not> isl (edge_fraction env s h r)"
  shows "choose_radius env a s h
           = Inr (case find (below_limit env s h) rs of Some r \<Rightarrow> r | None \<Rightarrow> last rs)
         \<and> (sorted rs \<longrightarrow>
              (\<forall>r x. find (below_limit env s h) rs = Some r \<longrightarrow> x \<in> set rs \<longrightarrow>
                     below_limit env s h x \<longrightarrow> r \<le> x))"
proof
  from radius_loop_find [OF assms(4), of None] assms(1,2,3)
  show "choose_radius env a s h
           = Inr (case find (below_limit env s h) rs of Some r \<Rightarrow> r | None \<Rightarrow> last rs)"
    by (simp add: choose_radius_def split: option.splits)
  show "sorted rs \<longrightarrow>
              (\<forall>r x. find (below_limit env s h) rs = Some r \<longrightarrow> x \<in> set rs \<longrightarrow>
                     below_limit env s h x \<longrightarrow> r \<le> x)"
    using find_sorted_least by blast
qed

text \<open>On an image whose pixels are all 2, no edge pixel is above mean + 2 sigma.\<close>

lemma upt3: "[0..<3] = [0, 1, 2]" by (simp add: upt_rec)
lemma upt5: "[0..<5] = [0, 1, 2, 3, 4]" by (simp add: upt_rec)

lemmas radius_defs = edge_fraction_def cutout_fov_def edge_data_def percent_def pixel_coords_def
  np_mean_def np_std_def deref_def trunc0_def

lemma sample_fraction_1: "edge_fraction sample_env sample_session (flat_heap 2) 1 = Inr 0"
  by (simp add: radius_defs sample_defs upt3)

lemma sample_fraction_2: "edge_fraction sample_env sample_session (flat_heap 2) 2 = Inr 0"
  by (simp add: radius_defs sample_defs upt5)

theorem radius_is_first_below_limit_witness:
  "choose_radius sample_env (sample_materials\<lparr>arg_radius := None, arg_radius_list := Some [1, 2]\<rparr>)
     sample_session (flat_heap 2) = Inr 1"
  using radius_is_first_below_limit [of "sample_materials\<lparr>arg_radius := None, arg_radius_list := Some [1, 2]\<rparr>"
          "[1, 2]" sample_env sample_session "flat_heap 2"]
  by (simp add: sample_fraction_1 sample_fraction_2 below_limit_def sample_materials_def)

text \<open>
  Claim C6 as stated fails for a list that is not ascending: with the list [2, 1] on an
  image where both radii pass the test, the radius chosen is 2, the first, not 1, the
  smallest.
\<close>

theorem smallest_radius_counterexample:
  "choose_radius sample_env (sample_materials\<lparr>arg_radius := None, arg_radius_list := Some [2, 1]\<rparr>)
     sample_session (flat_heap 2) = Inr 2 \<and>
   edge_fraction sample_env sample_session (flat_heap 2) 1 = Inr 0 \<and> (0::real) < 0.03 \<and> (1::int) < 2"
  by (simp add: choose_radius_def sample_fraction_1 sample_fraction_2 sample_materials_def)

text \<open>An empty list never binds \<open>rad\<close>, and line 119 raises.\<close>

lemma empty_radius_list:
  "arg_radius a = None \<Longrightarrow> arg_radius_list a = Some [] \<Longrightarrow> choose_radius env a s h = Inl UnboundLocalError"
  by (simp add: choose_radius_def)

lemma default_radius_list_sorted: "sorted default_radius_list \<and> default_radius_list \<noteq> []"
  by (simp add: default_radius_list_def)


section \<open>find_PSF: the search for candidates\<close>

text \<open>A boolean mask computed entry by entry is a filter.\<close>

lemma np_mask_filter:
  "np_mask xs (map P (zip (map f xs) (map g xs))) = filter (\<lambda>x. P (f x, g x)) xs"
  by (induction xs) (auto simp: np_mask_def)

lemma steady_spread: "steady fw \<Longrightarrow> np_std fw / np_mean fw < 0.1"
  by (simp add: steady_def)

text \<open>
  Claim C7, as amended. In the search for candidates, a local maximum whose FWHM
  measurements have a relative spread (deviation over mean) of 10% or more is not among
  the survivors. Among the survivors, a candidate is kept exactly when its mean FWHM is
  strictly less than 1.5 times the median of the survivors' mean FWHMs and, when the
  session has a target stamp, its flux is strictly less than 10 times and strictly more
  than half the flux of the target stamp.
\<close>

theorem kept_PSFs_strict:
  "(\<forall>c \<in> set (map (measure_candidate env img r) (search_local_max env img)).
       0.1 \<le> np_std (fst (snd c)) / np_mean (fst (snd c)) \<longrightarrow> c \<notin> set (survivors env img r))
   \<and> kept_PSFs env r s h img =
       filter (\<lambda>c. fst (snd c) < np_median (map (\<lambda>c. fst (snd c)) (init_PSFs env img r)) * 1.5 \<and>
                    (case target_flux s h of
                       None \<Rightarrow> True
                     | Some t \<Rightarrow> snd (snd c) < t * 10 \<and> snd (snd c) > t / 2))
         (init_PSFs env img r)"
proof
  show "\<forall>c \<in> set (map (measure_candidate env img r) (search_local_max env img)).
       0.1 \<le> np_std (fst (snd c)) / np_mean (fst (snd c)) \<longrightarrow> c \<notin> set (survivors env img r)"
    using steady_spread by (fastforce simp: survivors_def)
  show "kept_PSFs env r s h img =
       filter (\<lambda>c. fst (snd c) < np_median (map (\<lambda>c. fst (snd c)) (init_PSFs env img r)) * 1.5 \<and>
                    (case target_flux s h of
                       None \<Rightarrow> True
                     | Some t \<Rightarrow> snd (snd c) < t * 10 \<and> snd (snd c) > t / 2))
         (init_PSFs env img r)"
    unfolding kept_PSFs_def select_bool_def np_mask_filter by (simp add: case_prod_beta)
qed

text \<open>
  The sample field: the maxima in rows 2, 2 and 3 survive with mean FWHMs 2, 2 and 3, the
  one in row 4 has spread 1/2 and does not.
\<close>

lemmas search_defs = survivors_def init_PSFs_def measure_candidate_def steady_def np_mean_def np_std_def
  np_sum_def star_env_def sample_env_def sample_cutout_def coords_xy_def trunc0_def deref_def
  ramp_heap_def whole_def

lemma star_survivors:
  "survivors star_env (deref ramp_heap (whole 0 11 11)) 0
     = [(Flat 0 2, [2], 2), (Flat 1 2, [2], 2), (Flat 3 3, [3], 3)]"
  by (simp add: search_defs)

lemma star_init_PSFs:
  "init_PSFs star_env (deref ramp_heap (whole 0 11 11)) 0
     = [(Flat 0 2, 2, 2), (Flat 1 2, 2, 2), (Flat 3 3, 3, 3)]"
  by (simp add: init_PSFs_def star_survivors np_mean_def)

lemma star_unsteady:
  "measure_candidate star_env (deref ramp_heap (whole 0 11 11)) 0 (Flat 4 4) = (Flat 4 4, [1, 3], 4)
   \<and> np_std [1, 3] / np_mean [1, 3] = 1 / 2"
  by (simp add: search_defs)

lemma median_223: "np_median [2, 2, 3] = 2"
  by (simp add: np_median_def)

theorem kept_PSFs_strict_witness:
  "(0.1::real) \<le> 1 / 2 \<and>
   (Flat 4 4, [1, 3], 4) \<notin> set (survivors star_env (deref ramp_heap (whole 0 11 11)) 0) \<and>
   kept_PSFs star_env 0 sample_session ramp_heap (deref ramp_heap (whole 0 11 11))
     = [(Flat 0 2, 2, 2), (Flat 1 2, 2, 2)]"
  using kept_PSFs_strict [of star_env "deref ramp_heap (whole 0 11 11)" 0 sample_session ramp_heap]
  by (simp add: star_init_PSFs star_survivors median_223 target_flux_def sample_session_def)

text \<open>
  Claim C7 as stated fails at the bound: the survivor with mean FWHM 3 is at 1.5 times
  the median 2, which is "at most" 1.5 times the median, and line 210 (\<open><\<close>) drops it.
\<close>

theorem median_bound_counterexample:
  "(Flat 3 3, 3, 3) \<in> set (init_PSFs star_env (deref ramp_heap (whole 0 11 11)) 0) \<and>
   np_median (map (\<lambda>c. fst (snd c)) (init_PSFs star_env (deref ramp_heap (whole 0 11 11)) 0)) = 2 \<and>
   (3::real) \<le> 1.5 * 2 \<and> target_stamp sample_session = None \<and>
   (Flat 3 3, 3, 3) \<notin> set (kept_PSFs star_env 0 sample_session ramp_heap (deref ramp_heap (whole 0 11 11)))"
  by (simp add: kept_PSFs_def star_init_PSFs median_223 select_bool_def np_mask_def target_flux_def
        sample_session_def)


section \<open>generate_target_materials: the shapes of stamp and noise map\<close>

lemma cut_target_shape:
  assumes "square_cutouts env" and "cut_target env k r s h = Inr (stamp, s1)"
  shows "shape0 stamp = nat (2 * r + 1) \<and> shape1 stamp = nat (2 * r + 1)"
proof (cases k)
  case None
  with assms(2) obtain v where "fov_image s = Some v"
    and "stamp = cutout env (deref h v) (pixel_coords (target_pos s)) r"
    by (auto simp: cut_target_def cutout_fov_def split: option.splits)
  with assms(1) show ?thesis by (simp add: square_cutouts_def)
next
  case (Some kn)
  with assms(2) obtain v where "fov_image s = Some v"
    and "stamp = fst (cut_center_auto env (deref h v) (pixel_coords (target_pos s)) (Some kn) r)"
    by (auto simp: cut_target_def split: option.splits prod.splits)
  with assms(1) show ?thesis by (simp add: square_cutouts_def)
qed

lemma broadcast2_same_shape:
  "shape0 b = shape0 a \<Longrightarrow> shape1 b = shape1 a \<Longrightarrow> broadcast2 f a b = Inr q \<Longrightarrow>
     shape0 q = shape0 a \<and> shape1 q = shape1 a"
  by (auto simp: broadcast2_def bdim_def)

lemma make_noise_map_shape:
  assumes sq: "square_cutouts env"
    and st: "shape0 stamp = nat (2 * r + 1)" "shape1 stamp = nat (2 * r + 1)"
    and ok: "make_noise_map env bkg r stamp s h = (Inr (), s2, h2)"
  shows "\<exists>w. noise_map s2 = Some w \<and> nrows w = nat (2 * r + 1) \<and> ncols w = nat (2 * r + 1)"
proof (cases "fov_noise_map s")
  case (Some nm)
  with ok sq show ?thesis
    by (auto simp: make_noise_map_def alloc_def square_cutouts_def)
next
  case None
  have q: "shape0 q = nat (2 * r + 1) \<and> shape1 q = nat (2 * r + 1)"
    if "broadcast2 (/) stamp (cutout env img c r) = Inr q" for img c q
  proof -
    from sq have "shape0 (cutout env img c r) = shape0 stamp" "shape1 (cutout env img c r) = shape1 stamp"
      by (simp_all add: square_cutouts_def st)
    from broadcast2_same_shape [OF this that] st show ?thesis by simp
  qed
  from None ok show ?thesis
    by (auto simp: make_noise_map_def alloc_def np_map_def
          split: option.splits sum.splits exposure.splits dest!: q)
qed

text \<open>
  Claim C9. With cutout collaborators that keep their contract (a cutout of radius \<open>r\<close>
  is a square of side 2 r + 1), after every call of generate_target_materials that
  returns, the session holds a target stamp and a noise map, and they have the same
  shape: when the noise map is cut from the noise map of the field, and when it is
  computed from the stamp and the exposure map.
\<close>

theorem noise_map_shape:
  assumes "square_cutouts env" and "generate_target_materials env a s h = (Inr (), s', h')"
  shows "\<exists>ts nm. target_stamp s' = Some ts \<and> noise_map s' = Some nm \<and>
           shape0 (deref h' nm) = shape0 (deref h' ts) \<and> shape1 (deref h' nm) = shape1 (deref h' ts)"
proof -
  from assms(2) obtain r where r: "choose_radius env a s h = Inr r"
    by (cases "choose_radius env a s h") (auto simp: generate_target_materials_def)
  from assms(2) r obtain stamp s1 where ct: "cut_target env (arg_cut_kernel a) r s h = Inr (stamp, s1)"
    by (cases "cut_target env (arg_cut_kernel a) r s h") (auto simp: generate_target_materials_def)
  obtain ts h1 where al: "alloc h stamp = (ts, h1)" by (cases "alloc h stamp")
  from assms(2) r ct al obtain s2 h2 where
    nm: "make_noise_map env (arg_bkg_std a) r stamp s1 h1 = (Inr (), s2, h2)"
    by (cases "make_noise_map env (arg_bkg_std a) r stamp s1 h1")
      (auto simp: generate_target_materials_def split: sum.splits)
  from assms(2) r ct al nm obtain aps tm where
    fin: "s' = s2\<lparr>apertures := Some aps, target_stamp := Some ts, target_mask := Some tm\<rparr>"
    by (auto simp: generate_target_materials_def split: sum.splits prod.splits)
  from cut_target_shape [OF assms(1) ct]
  have st: "shape0 stamp = nat (2 * r + 1)" "shape1 stamp = nat (2 * r + 1)" by simp_all
  from make_noise_map_shape [OF assms(1) st nm] obtain w where
    w: "noise_map s2 = Some w" "nrows w = nat (2 * r + 1)" "ncols w = nat (2 * r + 1)" by blast
  from al st have "nrows ts = nat (2 * r + 1)" "ncols ts = nat (2 * r + 1)"
    by (auto simp: alloc_def)
  with w fin show ?thesis by (simp add: deref_def)
qed

lemma sample_square_cutouts: "square_cutouts sample_env"
  by (simp add: square_cutouts_def sample_env_def sample_cutout_def)

text \<open>
  Two calls with radius 1 that return, one with an exposure map and one with a noise map
  of the field: stamp and noise map are 3 by 3.
\<close>

theorem noise_map_shape_witness:
  "fst (generate_target_materials sample_env sample_materials
          (sample_session\<lparr>exptime := Some (Map (whole 1 11 11))\<rparr>) (flat_heap 2)) = Inr () \<and>
   target_stamp (fst (snd (generate_target_materials sample_env sample_materials
          (sample_session\<lparr>exptime := Some (Map (whole 1 11 11))\<rparr>) (flat_heap 2)))) = Some (whole 8 3 3) \<and>
   noise_map (fst (snd (generate_target_materials sample_env sample_materials
          (sample_session\<lparr>exptime := Some (Map (whole 1 11 11))\<rparr>) (flat_heap 2)))) = Some (whole 9 3 3) \<and>
   fst (generate_target_materials sample_env sample_materials
          (sample_session\<lparr>fov_noise_map := Some (whole 1 11 11)\<rparr>) (flat_heap 2)) = Inr () \<and>
   target_stamp (fst (snd (generate_target_materials sample_env sample_materials
          (sample_session\<lparr>fov_noise_map := Some (whole 1 11 11)\<rparr>) (flat_heap 2)))) = Some (whole 8 3 3) \<and>
   noise_map (fst (snd (generate_target_materials sample_env sample_materials
          (sample_session\<lparr>fov_noise_map := Some (whole 1 11 11)\<rparr>) (flat_heap 2)))) = Some (whole 9 3 3)"
proof -
  let ?G = "generate_target_materials sample_env sample_materials
          (sample_session\<lparr>exptime := Some (Map (whole 1 11 11))\<rparr>) (flat_heap 2)"
  let ?H = "generate_target_materials sample_env sample_materials
          (sample_session\<lparr>fov_noise_map := Some (whole 1 11 11)\<rparr>) (flat_heap 2)"
  have g: "?G = (Inr (), fst (snd ?G), snd (snd ?G))"
    by (simp add: materials_defs sample_defs)
  have h: "?H = (Inr (), fst (snd ?H), snd (snd ?H))"
    by (simp add: materials_defs sample_defs)
  from noise_map_shape [OF sample_square_cutouts g] noise_map_shape [OF sample_square_cutouts h]
  show ?thesis
    by (simp add: materials_defs sample_defs)
qed


end
